theory Spec2Isabelle
  imports Main "HOL-Library.Word" "HOL-Library.Sublist"
begin

section \<open>The racing agent page (mobile_agent.py)\<close>

text \<open>
  The program is one Streamlit script. It is run from top to bottom once per user
  action: it reads the widgets, and when the button was pressed and both the API key
  and the meeting name are there, it asks the hosted model for an analysis, decodes
  the answer with \<^verbatim>\<open>json.loads\<close> and renders it.

  The embedding keeps the script's control flow and makes its effects explicit:
  \<^item> every call that the script makes to the outside from line 31 on (the display
    calls of Streamlit, the calls into the generation client) is an \<open>event\<close>,
    recorded in call order with the arguments that vary or that tell two calls apart;
    the page furniture that every run shows alike (page configuration, style sheet,
    headers, the input widgets) is not recorded, and the values of the widgets are
    the \<open>form\<close>;
  \<^item> what the outside answers (whether a client call raises, what text the service
    returns, what \<^verbatim>\<open>json.loads\<close> makes of it) is read from an environment \<open>env\<close>;
  \<^item> an exception is a value: a run yields the events so far and, when an exception
    leaves the script uncaught, that exception. Of the display calls, only
    \<^verbatim>\<open>st.metric\<close> is given values of the response as they are, and it raises for
    a value that it does not accept; the others are given strings, or show any
    object through its \<^verbatim>\<open>str()\<close>, and return.

  Strings are byte lists holding the UTF-8 encoding of the Python string; the script
  only concatenates and compares strings, which the encoding preserves.
\<close>

subsection \<open>Python values\<close>

text \<open>
  The values \<^verbatim>\<open>json.loads\<close> can return. A float is kept as its 64 bits (IEEE 754);
  a dict is a list of bindings read with \<open>map_of\<close>.
\<close>

datatype pyval =
    PNone
  | PBool bool
  | PInt int
  | PFloat "64 word"
  | PStr string
  | PList "pyval list"
  | PDict "(string \<times> pyval) list"

text \<open>Python's truth value of an object, as \<^verbatim>\<open>if\<close> and \<^verbatim>\<open>and\<close> test it.\<close>

fun truthy :: "pyval \<Rightarrow> bool" where
  "truthy PNone = False"
| "truthy (PBool b) = b"
| "truthy (PInt i) = (i \<noteq> 0)"
| "truthy (PFloat w) = (w \<noteq> 0 \<and> w \<noteq> 0x8000000000000000)"
| "truthy (PStr s) = (s \<noteq> [])"
| "truthy (PList xs) = (xs \<noteq> [])"
| "truthy (PDict d) = (d \<noteq> [])"

text \<open>\<^verbatim>\<open>v != "..."\<close>: only a string can be equal to a string.\<close>

fun ne_str :: "pyval \<Rightarrow> string \<Rightarrow> bool" where
  "ne_str (PStr s) t = (s \<noteq> t)"
| "ne_str _ t = True"

text \<open>\<^verbatim>\<open>type(v).__name__\<close>, as it appears in the message of an AttributeError.\<close>

fun type_name :: "pyval \<Rightarrow> string" where
  "type_name PNone = ''NoneType''"
| "type_name (PBool _) = ''bool''"
| "type_name (PInt _) = ''int''"
| "type_name (PFloat _) = ''float''"
| "type_name (PStr _) = ''str''"
| "type_name (PList _) = ''list''"
| "type_name (PDict _) = ''dict''"

subsection \<open>Exceptions\<close>

text \<open>
  The exceptions of class \<^verbatim>\<open>Exception\<close> that can occur: the two that the script's
  own accesses raise, and whatever a library call raises, kept as its message.
\<close>

datatype exn =
    KeyError string
  | AttributeError string
  | LibraryError string

text \<open>
  \<^verbatim>\<open>str(e)\<close>. For a KeyError it is the repr of the key; the keys looked up
  here are plain identifiers, whose repr is the key in single quotes.
\<close>

fun exn_str :: "exn \<Rightarrow> string" where
  "exn_str (KeyError k) = [CHR 0x27] @ k @ [CHR 0x27]"
| "exn_str (AttributeError m) = m"
| "exn_str (LibraryError m) = m"

text \<open>\<^verbatim>\<open>d[k]\<close> on a dict.\<close>

definition subscript :: "(string \<times> pyval) list \<Rightarrow> string \<Rightarrow> exn + pyval" where
  "subscript d k = (case map_of d k of None \<Rightarrow> Inl (KeyError k) | Some v \<Rightarrow> Inr v)"

text \<open>\<^verbatim>\<open>d.get(k)\<close> on a dict: the value, or None.\<close>

definition dict_get :: "(string \<times> pyval) list \<Rightarrow> string \<Rightarrow> pyval" where
  "dict_get d k = (case map_of d k of None \<Rightarrow> PNone | Some v \<Rightarrow> v)"

subsection \<open>The form\<close>

text \<open>
  \<^verbatim>\<open>datetime.time\<close> and \<^verbatim>\<open>datetime.date\<close> as the widgets return them (a time
  of day in whole minutes), and their \<^verbatim>\<open>str()\<close>, the ISO format.
\<close>

record pytime =
  hour :: nat
  minute :: nat

record pydate =
  year :: nat
  month :: nat
  day :: nat

definition digit :: "nat \<Rightarrow> char" where
  "digit n = ''0123456789'' ! (n mod 10)"

definition pad2 :: "nat \<Rightarrow> string" where
  "pad2 n = [digit (n div 10), digit n]"

definition pad4 :: "nat \<Rightarrow> string" where
  "pad4 n = [digit (n div 1000), digit (n div 100), digit (n div 10), digit n]"

definition time_str :: "pytime \<Rightarrow> string" where
  "time_str t = pad2 (hour t) @ '':'' @ pad2 (minute t) @ '':00''"

definition date_str :: "pydate \<Rightarrow> string" where
  "date_str d = pad4 (year d) @ ''-'' @ pad2 (month d) @ ''-'' @ pad2 (day d)"

datatype bet_mode = Win | EachWay

fun bet_str :: "bet_mode \<Rightarrow> string" where
  "bet_str Win = ''Win''"
| "bet_str EachWay = ''Each-Way''"

text \<open>
  What the widgets hold when the script runs: the secret \<^verbatim>\<open>GOOGLE_API_KEY\<close> when the
  store has one, the text of the key field, the four race inputs, and whether the
  button was pressed.
\<close>

record form =
  secret_key :: "string option"
  typed_key :: string
  race_time :: pytime
  meeting :: string
  race_date :: pydate
  bet_type :: bet_mode
  start_btn :: bool

subsection \<open>Events and the environment\<close>

text \<open>
  The calls, each with the arguments kept: the text of a note, warning, error,
  caption or subheader; the number of columns; label, value, delta and delta colour
  of a metric (\<^verbatim>\<open>normal\<close> is what \<^verbatim>\<open>st.metric\<close> takes when none is given); the body
  of the info panel; the label of the status box, a line written into it, and the
  label and state of an update; the key given to \<^verbatim>\<open>genai.configure\<close>; the system
  instruction of the model; the system instruction and prompt of a generation call.
\<close>

datatype event =
    StSuccess string
  | StWarning string
  | StError string
  | StCaption string
  | StColumns nat
  | StMetric string pyval pyval string
  | StDivider
  | StSubheader string
  | StInfo pyval
  | StStatus string
  | StatusWrite string
  | StatusUpdate string string
  | GenaiConfigure string
  | NewGenerationConfig
  | NewGenerativeModel string
  | GenerateContent string string

text \<open>
  The outside. \<open>configure\<close>, \<open>generation_config\<close> and \<open>generative_model\<close> say
  whether the client call raises; \<open>generate_content\<close>, given the key, the system
  instruction and the prompt, raises or returns a response, whose \<^verbatim>\<open>.text\<close>
  raises or is a string; \<open>loads\<close> is \<^verbatim>\<open>json.loads\<close>; \<open>str_of\<close> is \<^verbatim>\<open>str()\<close>
  on a value that is not a string; \<open>metric_refusal\<close> is the exception that
  \<^verbatim>\<open>st.metric\<close> raises when it is given this value and this delta and does not
  accept one of them.
\<close>

record env =
  configure :: "string \<Rightarrow> exn option"
  generation_config :: "exn option"
  generative_model :: "string \<Rightarrow> exn option"
  generate_content :: "string \<Rightarrow> string \<Rightarrow> string \<Rightarrow> exn + (exn + string)"
  loads :: "string \<Rightarrow> exn + pyval"
  str_of :: "pyval \<Rightarrow> string"
  metric_refusal :: "pyval \<Rightarrow> pyval \<Rightarrow> exn"

text \<open>The value of a replacement field of an f-string: \<^verbatim>\<open>str()\<close> of the object.\<close>

fun format_value :: "env \<Rightarrow> pyval \<Rightarrow> string" where
  "format_value E (PStr s) = s"
| "format_value E v = str_of E v"

subsection \<open>Running statements in order\<close>

text \<open>
  The result of running a piece of the script: the events it caused, and the exception
  that ended it, if one did. \<open>seq\<close> runs statements one after the other and stops at
  the first that raises; \<open>try_except\<close> is \<^verbatim>\<open>try: ... except Exception as e: ...\<close>.
\<close>

type_synonym outcome = "event list \<times> exn option"

definition emit :: "event \<Rightarrow> outcome" where
  "emit ev = ([ev], None)"

definition call :: "event \<Rightarrow> exn option \<Rightarrow> outcome" where
  "call ev r = ([ev], r)"

fun seq :: "outcome list \<Rightarrow> outcome" where
  "seq [] = ([], None)"
| "seq (a # rest) =
     (case snd a of
        Some e \<Rightarrow> (fst a, Some e)
      | None \<Rightarrow> (fst a @ fst (seq rest), snd (seq rest)))"

definition try_except :: "outcome \<Rightarrow> (exn \<Rightarrow> outcome) \<Rightarrow> outcome" where
  "try_except body handler =
     (case snd body of
        None \<Rightarrow> body
      | Some e \<Rightarrow> seq [(fst body, None), handler e])"

text \<open>Evaluate \<^verbatim>\<open>d[k]\<close> and go on with the value; a missing key raises.\<close>

definition with_item :: "(string \<times> pyval) list \<Rightarrow> string \<Rightarrow> (pyval \<Rightarrow> outcome) \<Rightarrow> outcome" where
  "with_item d k cont = (case subscript d k of Inl e \<Rightarrow> ([], Some e) | Inr v \<Rightarrow> cont v)"

subsection \<open>The script\<close>

text \<open>Lines 31 to 38: the key comes from the secret store, else from the key field.\<close>

definition api_key :: "form \<Rightarrow> string" where
  "api_key f = (case secret_key f of Some k \<Rightarrow> k | None \<Rightarrow> typed_key f)"

definition secrets_note :: string where
  "secrets_note = ''API Key loaded from Cloud Secrets '' @ [CHR 0xE2, CHR 0x98, CHR 0x81, CHR 0xEF, CHR 0xB8, CHR 0x8F]"

definition sidebar :: "form \<Rightarrow> event list" where
  "sidebar f = (case secret_key f of Some k \<Rightarrow> [StSuccess secrets_note] | None \<Rightarrow> [])"

text \<open>Lines 71 to 85 and line 93: the two f-strings sent to the model.\<close>

definition nl :: string where
  "nl = [CHR 0x0A]"

definition indent :: string where
  "indent = replicate 12 CHR '' ''"

definition quoted :: "string \<Rightarrow> string" where
  "quoted s = [CHR 0x22] @ s @ [CHR 0x22]"

definition key_line :: "string \<Rightarrow> string \<Rightarrow> string" where
  "key_line k hint = indent @ ''   - '' @ quoted k @ '': '' @ quoted hint @ nl"

definition system_instruction :: "form \<Rightarrow> string" where
  "system_instruction f =
     nl @
     indent @ ''You are a Racing Analyst. You MUST output strictly compliant JSON.'' @ nl @
     indent @ nl @
     indent @ ''YOUR GOAL:'' @ nl @
     indent @ ''1. Search for the racecard: '' @ meeting f @ '' '' @ time_str (race_time f) @
       '' on '' @ date_str (race_date f) @ ''.'' @ nl @
     indent @ ''2. Analyze based on Going, Class, and Jockey.'' @ nl @
     indent @ ''3. Return JSON with these exact keys:'' @ nl @
     key_line ''conditions'' ''e.g. Soft, 2m 4f'' @
     key_line ''selection'' ''Name of horse'' @
     key_line ''selection_odds'' ''e.g. 4/1'' @
     key_line ''danger'' ''Name of danger horse'' @
     key_line ''danger_odds'' ''e.g. 7/2'' @
     key_line ''jockey_alert'' ''Any top jockey booking or null'' @
     key_line ''logic'' ''Concise reasoning for the selection.'' @
     indent"

definition user_prompt :: "form \<Rightarrow> string" where
  "user_prompt f =
     ''Analyze the '' @ time_str (race_time f) @ '' race at '' @ meeting f @
     '' ('' @ date_str (race_date f) @ '') for a '' @ bet_str (bet_type f) @ '' bet.''"

text \<open>The fixed texts of the display calls.\<close>

definition working_label :: string where
  "working_label = [CHR 0xF0, CHR 0x9F, CHR 0x9A, CHR 0x80] @ '' Agent Working...''"

definition finding_note :: string where
  "finding_note = [CHR 0xF0, CHR 0x9F, CHR 0x94, CHR 0x8D] @ '' Finding racecard & checking going...''"

definition alert_prefix :: string where
  "alert_prefix = [CHR 0xF0, CHR 0x9F, CHR 0x9A, CHR 0xA8] @ '' **JOCKEY ALERT:** ''"

definition pin :: string where
  "pin = [CHR 0xF0, CHR 0x9F, CHR 0x93, CHR 0x8D] @ '' ''"

definition bullet :: string where
  "bullet = '' '' @ [CHR 0xE2, CHR 0x80, CHR 0xA2] @ '' ''"

definition selection_label :: string where
  "selection_label = [CHR 0xF0, CHR 0x9F, CHR 0x8F, CHR 0x86] @ '' THE SELECTION''"

definition danger_label :: string where
  "danger_label = [CHR 0xE2, CHR 0x9A, CHR 0xA0, CHR 0xEF, CHR 0xB8, CHR 0x8F] @ '' THE DANGER''"

definition logic_heading :: string where
  "logic_heading = [CHR 0xF0, CHR 0x9F, CHR 0x93, CHR 0x9D] @ '' The Logic''"

text \<open>
  Lines 104 and 105. The condition is \<^verbatim>\<open>data.get("jockey_alert") and
  data["jockey_alert"] != "null"\<close>: the second operand is evaluated only when the first
  is true, and the banner formats a third read of the key.
\<close>

definition jockey_alert_banner :: "env \<Rightarrow> (string \<times> pyval) list \<Rightarrow> outcome" where
  "jockey_alert_banner E d =
     (if truthy (dict_get d ''jockey_alert'')
      then with_item d ''jockey_alert'' (\<lambda>v.
        if ne_str v ''null''
        then with_item d ''jockey_alert'' (\<lambda>a. emit (StError (alert_prefix @ format_value E a)))
        else ([], None))
      else ([], None))"

text \<open>
  \<^verbatim>\<open>st.metric\<close>, lines 114 to 125. As value and as delta it accepts None, a bool
  (which is an int), an int, a float or a string; given a list or a dict it raises
  a TypeError and shows nothing.
\<close>

fun metric_accepts :: "pyval \<Rightarrow> bool" where
  "metric_accepts (PList _) = False"
| "metric_accepts (PDict _) = False"
| "metric_accepts _ = True"

definition st_metric :: "env \<Rightarrow> string \<Rightarrow> pyval \<Rightarrow> pyval \<Rightarrow> string \<Rightarrow> outcome" where
  "st_metric E label v delta colour =
     (if metric_accepts v \<and> metric_accepts delta
      then emit (StMetric label v delta colour)
      else ([], Some (metric_refusal E v delta)))"

text \<open>
  Lines 99 to 130, the rest of the \<^verbatim>\<open>try\<close> block once \<open>data\<close> is there. The first
  use of \<open>data\<close> is \<^verbatim>\<open>data.get\<close>, which only a dict has. The arguments of a call
  are evaluated left to right before the call is made.
\<close>

definition display :: "env \<Rightarrow> string \<Rightarrow> pyval \<Rightarrow> outcome" where
  "display E m data =
     seq [
       emit (StatusUpdate ''Analysis Complete'' ''complete''),
       (case data of
          PDict d \<Rightarrow>
            seq [
              jockey_alert_banner E d,
              with_item d ''conditions'' (\<lambda>c.
                emit (StCaption (pin @ m @ bullet @ format_value E c))),
              emit (StColumns 2),
              with_item d ''selection'' (\<lambda>v. with_item d ''selection_odds'' (\<lambda>odds.
                st_metric E selection_label v odds ''normal'')),
              with_item d ''danger'' (\<lambda>v. with_item d ''danger_odds'' (\<lambda>odds.
                st_metric E danger_label v odds ''inverse'')),
              emit StDivider,
              emit (StSubheader logic_heading),
              with_item d ''logic'' (\<lambda>l. emit (StInfo l))
            ]
        | _ \<Rightarrow> ([], Some (AttributeError
            ([CHR 0x27] @ type_name data @ [CHR 0x27] @ '' object has no attribute '' @
             [CHR 0x27] @ ''get'' @ [CHR 0x27]))))
     ]"

text \<open>Lines 92 to 97: the call to the service, \<^verbatim>\<open>response.text\<close>, \<^verbatim>\<open>json.loads\<close>.\<close>

definition attempt :: "env \<Rightarrow> form \<Rightarrow> outcome" where
  "attempt E f =
     (let asked = GenerateContent (system_instruction f) (user_prompt f) in
      case generate_content E (api_key f) (system_instruction f) (user_prompt f) of
        Inl e \<Rightarrow> ([asked], Some e)
      | Inr response \<Rightarrow>
          (case response of
             Inl e \<Rightarrow> ([asked], Some e)
           | Inr text \<Rightarrow>
               (case loads E text of
                  Inl e \<Rightarrow> ([asked], Some e)
                | Inr data \<Rightarrow> seq [([asked], None), display E (meeting f) data])))"

text \<open>Lines 132 to 134.\<close>

definition handler :: "exn \<Rightarrow> outcome" where
  "handler e =
     seq [emit (StatusUpdate ''Error'' ''error''), emit (StError (''Oops: '' @ exn_str e))]"

text \<open>Lines 55 to 134, the branch taken when button, key and meeting are all there.\<close>

definition agent :: "env \<Rightarrow> form \<Rightarrow> outcome" where
  "agent E f =
     seq [
       call (GenaiConfigure (api_key f)) (configure E (api_key f)),
       emit (StStatus working_label),
       call NewGenerationConfig (generation_config E),
       call (NewGenerativeModel (system_instruction f))
            (generative_model E (system_instruction f)),
       emit (StatusWrite finding_note),
       try_except (attempt E f) handler
     ]"

text \<open>
  Lines 31 to 137, one run of the script. A string is true when it is not empty.
\<close>

definition run :: "env \<Rightarrow> form \<Rightarrow> outcome" where
  "run E f =
     (if start_btn f \<and> api_key f \<noteq> [] \<and> meeting f \<noteq> []
      then seq [(sidebar f, None), agent E f]
      else if start_btn f \<and> \<not> (api_key f \<noteq> [])
      then (sidebar f @ [StWarning ''Please enter your API Key.''], None)
      else (sidebar f, None))"

subsection \<open>Vocabulary of the properties\<close>

text \<open>
  A submission that reaches the agent branch, and a run in which none of the three
  client calls made before the \<^verbatim>\<open>try\<close> block raises.
\<close>

definition submitted :: "form \<Rightarrow> bool" where
  "submitted f = (start_btn f \<and> api_key f \<noteq> [] \<and> meeting f \<noteq> [])"

definition setup_ok :: "env \<Rightarrow> form \<Rightarrow> bool" where
  "setup_ok E f =
     (configure E (api_key f) = None \<and> generation_config E = None \<and>
      generative_model E (system_instruction f) = None)"

text \<open>The events of a run up to and including the call to the service.\<close>

definition up_to_call :: "form \<Rightarrow> event list" where
  "up_to_call f =
     sidebar f @
     [GenaiConfigure (api_key f), StStatus working_label, NewGenerationConfig,
      NewGenerativeModel (system_instruction f), StatusWrite finding_note,
      GenerateContent (system_instruction f) (user_prompt f)]"

text \<open>What the \<^verbatim>\<open>except\<close> branch shows for an exception, and the status of line 99.\<close>

definition error_report :: "exn \<Rightarrow> event list" where
  "error_report e = [StatusUpdate ''Error'' ''error'', StError (''Oops: '' @ exn_str e)]"

definition analysis_complete :: event where
  "analysis_complete = StatusUpdate ''Analysis Complete'' ''complete''"

definition alert_shown :: "env \<Rightarrow> (string \<times> pyval) list \<Rightarrow> event list" where
  "alert_shown E d = fst (jockey_alert_banner E d)"

text \<open>
  The caption the page shows for a meeting and the value of \<open>conditions\<close>: the
  pin sign (U+1F4CD), a space, the meeting, a bullet (U+2022) between spaces, and
  the value as \<^verbatim>\<open>str()\<close> gives it, a string being itself. The banner for an alert
  text: the siren sign (U+1F6A8) and the heading in bold, then the text.
\<close>

definition caption_of :: "env \<Rightarrow> string \<Rightarrow> pyval \<Rightarrow> event" where
  "caption_of E m c =
     StCaption
       ([CHR 0xF0, CHR 0x9F, CHR 0x93, CHR 0x8D] @ '' '' @ m @
        '' '' @ [CHR 0xE2, CHR 0x80, CHR 0xA2] @ '' '' @
        (case c of PStr t \<Rightarrow> t | _ \<Rightarrow> str_of E c))"

definition banner_of :: "string \<Rightarrow> event" where
  "banner_of a = StError ([CHR 0xF0, CHR 0x9F, CHR 0x9A, CHR 0xA8] @ '' **JOCKEY ALERT:** '' @ a)"

text \<open>
  Kinds of events. The alert banner and the error message are both made by
  \<^verbatim>\<open>st.error\<close>; they differ in how the text starts.
\<close>

fun genai_call :: "event \<Rightarrow> bool" where
  "genai_call (GenaiConfigure _) = True"
| "genai_call NewGenerationConfig = True"
| "genai_call (NewGenerativeModel _) = True"
| "genai_call (GenerateContent _ _) = True"
| "genai_call _ = False"

fun alert_banner :: "event \<Rightarrow> bool" where
  "alert_banner (StError s) = prefix alert_prefix s"
| "alert_banner _ = False"

fun error_message :: "event \<Rightarrow> bool" where
  "error_message (StError s) = prefix ''Oops: '' s"
| "error_message _ = False"

fun logic_panel :: "event \<Rightarrow> bool" where
  "logic_panel (StInfo _) = True"
| "logic_panel _ = False"

fun success_output :: "event \<Rightarrow> bool" where
  "success_output (StError s) = prefix alert_prefix s"
| "success_output (StCaption _) = True"
| "success_output (StMetric _ _ _ _) = True"
| "success_output (StInfo _) = True"
| "success_output _ = False"

fun caption :: "event \<Rightarrow> bool" where
  "caption (StCaption _) = True"
| "caption _ = False"

fun is_dict :: "pyval \<Rightarrow> bool" where
  "is_dict (PDict _) = True"
| "is_dict _ = False"

definition required_keys :: "string list" where
  "required_keys =
     [''conditions'', ''selection'', ''selection_odds'', ''danger'', ''danger_odds'', ''logic'']"

subsection \<open>Concrete runs\<close>

text \<open>
  The form of the end-to-end scenarios, and environments in which the client calls
  succeed, the service answers a given text and \<^verbatim>\<open>json.loads\<close> decodes just that text.
\<close>

definition newbury :: form where
  "newbury =
     \<lparr>secret_key = None, typed_key = ''key'',
      race_time = \<lparr>hour = 15, minute = 35\<rparr>, meeting = ''Newbury'',
      race_date = \<lparr>year = 2024, month = 6, day = 1\<rparr>, bet_type = Win, start_btn = True\<rparr>"

definition decode_only :: "string \<Rightarrow> pyval \<Rightarrow> string \<Rightarrow> exn + pyval" where
  "decode_only text v t =
     (if t = text then Inr v
      else Inl (LibraryError ''Expecting value: line 1 column 1 (char 0)''))"

definition answering :: "string \<Rightarrow> (string \<Rightarrow> exn + pyval) \<Rightarrow> env" where
  "answering text decode =
     \<lparr>configure = (\<lambda>k. None), generation_config = None, generative_model = (\<lambda>s. None),
      generate_content = (\<lambda>k s p. Inr (Inr text)), loads = decode,
      str_of = (\<lambda>v. ''?''),
      metric_refusal = (\<lambda>v delta. LibraryError ''not an accepted type'')\<rparr>"

definition scenario_1_text :: string where
  \<open>scenario_1_text =
     ''{"conditions":"Soft, 2m4f","selection":"Storm King","selection_odds":"4/1",'' @
     ''"danger":"Bay Breeze","danger_odds":"7/2","jockey_alert":null,'' @
     ''"logic":"Soft ground favors stamina."}''\<close>

definition scenario_1_data :: "(string \<times> pyval) list" where
  "scenario_1_data =
     [(''conditions'', PStr ''Soft, 2m4f''), (''selection'', PStr ''Storm King''),
      (''selection_odds'', PStr ''4/1''), (''danger'', PStr ''Bay Breeze''),
      (''danger_odds'', PStr ''7/2''), (''jockey_alert'', PNone),
      (''logic'', PStr ''Soft ground favors stamina.'')]"



definition alert_data :: "pyval \<Rightarrow> (string \<times> pyval) list" where
  "alert_data a =
     [(''conditions'', PStr ''Soft, 2m4f''), (''selection'', PStr ''Storm King''),
      (''selection_odds'', PStr ''4/1''), (''danger'', PStr ''Bay Breeze''),
      (''danger_odds'', PStr ''7/2''), (''jockey_alert'', a),
      (''logic'', PStr ''Soft ground favors stamina.'')]"

definition not_json_text :: string where
  "not_json_text = ''Sorry, I could not find that race.''"

definition decode_fails :: "string \<Rightarrow> exn + pyval" where
  "decode_fails t = Inl (LibraryError ''Expecting value: line 1 column 1 (char 0)'')"

definition empty_alert_text :: string where
  \<open>empty_alert_text =
     ''{"conditions":"Soft, 2m4f","selection":"Storm King","selection_odds":"4/1",'' @
     ''"danger":"Bay Breeze","danger_odds":"7/2","jockey_alert":"",'' @
     ''"logic":"Soft ground favors stamina."}''\<close>

definition smith_text :: string where
  \<open>smith_text =
     ''{"conditions":"Soft, 2m4f","selection":"Storm King","selection_odds":"4/1",'' @
     ''"danger":"Bay Breeze","danger_odds":"7/2","jockey_alert":"J. Smith booked",'' @
     ''"logic":"Soft ground favors stamina."}''\<close>

definition list_text :: string where
  \<open>list_text = ''["Storm King", "Bay Breeze"]''\<close>

definition list_data :: pyval where
  "list_data = PList [PStr ''Storm King'', PStr ''Bay Breeze'']"

definition list_selection_text :: string where
  \<open>list_selection_text =
     ''{"conditions":"Soft, 2m4f","selection":["Storm King","Bay Breeze"],'' @
     ''"selection_odds":"4/1","danger":"Bay Breeze","danger_odds":"7/2",'' @
     ''"jockey_alert":null,"logic":"Soft ground favors stamina."}''\<close>

definition list_selection_data :: "(string \<times> pyval) list" where
  "list_selection_data =
     [(''conditions'', PStr ''Soft, 2m4f''),
      (''selection'', PList [PStr ''Storm King'', PStr ''Bay Breeze'']),
      (''selection_odds'', PStr ''4/1''), (''danger'', PStr ''Bay Breeze''),
      (''danger_odds'', PStr ''7/2''), (''jockey_alert'', PNone),
      (''logic'', PStr ''Soft ground favors stamina.'')]"

text \<open>Environments in which one of the calls raises.\<close>

definition model_rejected :: env where
  "model_rejected =
     (answering scenario_1_text decode_fails)
       \<lparr>generative_model := (\<lambda>s. Some (LibraryError ''Unknown field for Tool''))\<rparr>"

definition service_down :: env where
  "service_down =
     (answering scenario_1_text decode_fails)
       \<lparr>generate_content := (\<lambda>k s p. Inl (LibraryError ''503 Service Unavailable''))\<rparr>"

definition answer_blocked :: env where
  "answer_blocked =
     (answering scenario_1_text decode_fails)
       \<lparr>generate_content := (\<lambda>k s p. Inr (Inl (LibraryError ''The response has no text'')))\<rparr>"

section \<open>Properties\<close>

subsection \<open>Sequencing and the exception handler\<close>

lemma seq_single [simp]: "seq [a] = a"
  by (cases a) (simp split: option.splits)

lemma seq_Cons_ok [simp]: "seq ((evs, None) # rest) = (evs @ fst (seq rest), snd (seq rest))"
  by simp

lemma seq_Cons_raise [simp]: "seq ((evs, Some e) # rest) = (evs, Some e)"
  by simp

declare seq.simps(2) [simp del]

lemma try_except_handler:
  "try_except body handler =
     (case snd body of None \<Rightarrow> body | Some e \<Rightarrow> (fst body @ error_report e, None))"
  by (simp add: try_except_def handler_def emit_def error_report_def split: option.splits)

lemma try_except_handler_returns: "snd (try_except body handler) = None"
  by (simp add: try_except_handler split: option.splits)

subsection \<open>Reading the decoded response\<close>

lemma with_item_present: "map_of d k = Some v \<Longrightarrow> with_item d k cont = cont v"
  by (simp add: with_item_def subscript_def)

lemma with_item_missing: "map_of d k = None \<Longrightarrow> with_item d k cont = ([], Some (KeyError k))"
  by (simp add: with_item_def subscript_def)

lemma st_metric_accepted:
  "metric_accepts v \<Longrightarrow> metric_accepts delta \<Longrightarrow>
   st_metric E label v delta colour = ([StMetric label v delta colour], None)"
  by (simp add: st_metric_def emit_def)

lemma st_metric_refused:
  "\<not> (metric_accepts v \<and> metric_accepts delta) \<Longrightarrow>
   st_metric E label v delta colour = ([], Some (metric_refusal E v delta))"
  by (auto simp: st_metric_def)

lemma caption_of_eq: "StCaption (pin @ m @ bullet @ format_value E c) = caption_of E m c"
  by (cases c) (simp_all add: caption_of_def pin_def bullet_def)

lemma banner_of_eq: "StError (alert_prefix @ a) = banner_of a"
  by (simp add: banner_of_def alert_prefix_def)

lemma banner_cases:
  "jockey_alert_banner E d =
     (if truthy (dict_get d ''jockey_alert'') \<and> ne_str (dict_get d ''jockey_alert'') ''null''
      then [StError (alert_prefix @ format_value E (dict_get d ''jockey_alert''))]
      else [], None)"
  by (auto simp: jockey_alert_banner_def with_item_def subscript_def dict_get_def emit_def
      split: option.splits)

lemma banner_returns: "jockey_alert_banner E d = (alert_shown E d, None)"
  by (simp add: alert_shown_def banner_cases)

lemma alert_shown_cases:
  "alert_shown E d = [] \<or> (\<exists>t. alert_shown E d = [StError (alert_prefix @ t)])"
  by (simp add: alert_shown_def banner_cases)

lemma alert_shown_falsy:
  "\<not> truthy (dict_get d ''jockey_alert'') \<Longrightarrow> alert_shown E d = []"
  by (simp add: alert_shown_def banner_cases)

lemma alert_shown_string:
  "map_of d ''jockey_alert'' = Some (PStr a) \<Longrightarrow> a \<noteq> [] \<Longrightarrow> a \<noteq> ''null'' \<Longrightarrow>
   alert_shown E d = [banner_of a]"
  by (simp add: alert_shown_def banner_cases dict_get_def banner_of_eq)

lemma alert_shown_no_error_message [simp]: "filter error_message (alert_shown E d) = []"
  using alert_shown_cases [of E d] by (auto simp: alert_prefix_def)

lemma alert_shown_no_logic_panel [simp]: "list_ex logic_panel (alert_shown E d) = False"
  using alert_shown_cases [of E d] by auto

lemma sidebar_only_note:
  "filter error_message (sidebar f) = []" "list_ex logic_panel (sidebar f) = False"
  "list_ex success_output (sidebar f) = False" "list_ex alert_banner (sidebar f) = False"
  "list_ex genai_call (sidebar f) = False" "filter caption (sidebar f) = []"
  by (simp_all add: sidebar_def split: option.splits)

lemma up_to_call_kinds [simp]:
  "filter error_message (up_to_call f) = []" "list_ex logic_panel (up_to_call f) = False"
  "list_ex success_output (up_to_call f) = False" "list_ex alert_banner (up_to_call f) = False"
  "filter caption (up_to_call f) = []"
  by (simp_all add: up_to_call_def sidebar_only_note)

lemma error_report_kinds [simp]:
  "filter error_message (error_report e) = [StError (''Oops: '' @ exn_str e)]"
  "list_ex logic_panel (error_report e) = False"
  "list_ex success_output (error_report e) = False"
  "list_ex alert_banner (error_report e) = False"
  "last (error_report e) = StError (''Oops: '' @ exn_str e)"
  "error_report e \<noteq> []"
  by (simp_all add: error_report_def alert_prefix_def)

lemma caption_of_kinds [simp]:
  "error_message (caption_of E m c) = False" "logic_panel (caption_of E m c) = False"
  "alert_banner (caption_of E m c) = False" "caption (caption_of E m c) = True"
  by (simp_all add: caption_of_def)

text \<open>
  The display of a dict, by the first step that fails in reading order: the events
  of the steps before it, and the exception.
\<close>

lemmas display_steps =
  display_def banner_returns with_item_present with_item_missing st_metric_accepted
  st_metric_refused emit_def analysis_complete_def [symmetric] caption_of_eq

lemma display_complete:
  assumes "map_of d ''conditions'' = Some c"
    and "map_of d ''selection'' = Some s" and "map_of d ''selection_odds'' = Some so"
    and "metric_accepts s" and "metric_accepts so"
    and "map_of d ''danger'' = Some g" and "map_of d ''danger_odds'' = Some go"
    and "metric_accepts g" and "metric_accepts go"
    and "map_of d ''logic'' = Some l"
  shows "display E m (PDict d) =
    (analysis_complete # alert_shown E d @
     [caption_of E m c, StColumns 2,
      StMetric selection_label s so ''normal'', StMetric danger_label g go ''inverse'',
      StDivider, StSubheader logic_heading, StInfo l], None)"
  using assms by (simp add: display_steps)

lemma display_no_conditions:
  assumes "map_of d ''conditions'' = None"
  shows "display E m (PDict d) =
    (analysis_complete # alert_shown E d, Some (KeyError ''conditions''))"
  using assms by (simp add: display_steps)

lemma display_no_selection:
  assumes "map_of d ''conditions'' = Some c" and "map_of d ''selection'' = None"
  shows "display E m (PDict d) =
    (analysis_complete # alert_shown E d @ [caption_of E m c, StColumns 2],
     Some (KeyError ''selection''))"
  using assms by (simp add: display_steps)

lemma display_no_selection_odds:
  assumes "map_of d ''conditions'' = Some c"
    and "map_of d ''selection'' = Some s" and "map_of d ''selection_odds'' = None"
  shows "display E m (PDict d) =
    (analysis_complete # alert_shown E d @ [caption_of E m c, StColumns 2],
     Some (KeyError ''selection_odds''))"
  using assms by (simp add: display_steps)

lemma display_selection_refused:
  assumes "map_of d ''conditions'' = Some c"
    and "map_of d ''selection'' = Some s" and "map_of d ''selection_odds'' = Some so"
    and "\<not> (metric_accepts s \<and> metric_accepts so)"
  shows "display E m (PDict d) =
    (analysis_complete # alert_shown E d @ [caption_of E m c, StColumns 2],
     Some (metric_refusal E s so))"
  using assms by (simp add: display_steps)

lemma display_no_danger:
  assumes "map_of d ''conditions'' = Some c"
    and "map_of d ''selection'' = Some s" and "map_of d ''selection_odds'' = Some so"
    and "metric_accepts s" and "metric_accepts so"
    and "map_of d ''danger'' = None"
  shows "display E m (PDict d) =
    (analysis_complete # alert_shown E d @
     [caption_of E m c, StColumns 2, StMetric selection_label s so ''normal''],
     Some (KeyError ''danger''))"
  using assms by (simp add: display_steps)

lemma display_no_danger_odds:
  assumes "map_of d ''conditions'' = Some c"
    and "map_of d ''selection'' = Some s" and "map_of d ''selection_odds'' = Some so"
    and "metric_accepts s" and "metric_accepts so"
    and "map_of d ''danger'' = Some g" and "map_of d ''danger_odds'' = None"
  shows "display E m (PDict d) =
    (analysis_complete # alert_shown E d @
     [caption_of E m c, StColumns 2, StMetric selection_label s so ''normal''],
     Some (KeyError ''danger_odds''))"
  using assms by (simp add: display_steps)

lemma display_danger_refused:
  assumes "map_of d ''conditions'' = Some c"
    and "map_of d ''selection'' = Some s" and "map_of d ''selection_odds'' = Some so"
    and "metric_accepts s" and "metric_accepts so"
    and "map_of d ''danger'' = Some g" and "map_of d ''danger_odds'' = Some go"
    and "\<not> (metric_accepts g \<and> metric_accepts go)"
  shows "display E m (PDict d) =
    (analysis_complete # alert_shown E d @
     [caption_of E m c, StColumns 2, StMetric selection_label s so ''normal''],
     Some (metric_refusal E g go))"
  using assms by (simp add: display_steps)

lemma display_no_logic:
  assumes "map_of d ''conditions'' = Some c"
    and "map_of d ''selection'' = Some s" and "map_of d ''selection_odds'' = Some so"
    and "metric_accepts s" and "metric_accepts so"
    and "map_of d ''danger'' = Some g" and "map_of d ''danger_odds'' = Some go"
    and "metric_accepts g" and "metric_accepts go"
    and "map_of d ''logic'' = None"
  shows "display E m (PDict d) =
    (analysis_complete # alert_shown E d @
     [caption_of E m c, StColumns 2,
      StMetric selection_label s so ''normal'', StMetric danger_label g go ''inverse'',
      StDivider, StSubheader logic_heading], Some (KeyError ''logic''))"
  using assms by (simp add: display_steps)

lemma display_not_dict:
  assumes "\<not> is_dict data"
  shows "display E m data =
    ([analysis_complete], Some (AttributeError
       ([CHR 0x27] @ type_name data @ [CHR 0x27] @ '' object has no attribute '' @
        [CHR 0x27] @ ''get'' @ [CHR 0x27])))"
  using assms
  by (cases data) (simp_all add: display_def analysis_complete_def emit_def)

text \<open>The ten ways a dict can be: complete and accepted, or failing at one of nine steps.\<close>

lemma dict_cases:
  obtains
    (complete) c s so g go l where "map_of d ''conditions'' = Some c"
      "map_of d ''selection'' = Some s" "map_of d ''selection_odds'' = Some so"
      "metric_accepts s" "metric_accepts so"
      "map_of d ''danger'' = Some g" "map_of d ''danger_odds'' = Some go"
      "metric_accepts g" "metric_accepts go" "map_of d ''logic'' = Some l"
  | (no_conditions) "map_of d ''conditions'' = None"
  | (no_selection) c where "map_of d ''conditions'' = Some c" "map_of d ''selection'' = None"
  | (no_selection_odds) c s where "map_of d ''conditions'' = Some c"
      "map_of d ''selection'' = Some s" "map_of d ''selection_odds'' = None"
  | (selection_refused) c s so where "map_of d ''conditions'' = Some c"
      "map_of d ''selection'' = Some s" "map_of d ''selection_odds'' = Some so"
      "\<not> (metric_accepts s \<and> metric_accepts so)"
  | (no_danger) c s so where "map_of d ''conditions'' = Some c"
      "map_of d ''selection'' = Some s" "map_of d ''selection_odds'' = Some so"
      "metric_accepts s" "metric_accepts so" "map_of d ''danger'' = None"
  | (no_danger_odds) c s so g where "map_of d ''conditions'' = Some c"
      "map_of d ''selection'' = Some s" "map_of d ''selection_odds'' = Some so"
      "metric_accepts s" "metric_accepts so"
      "map_of d ''danger'' = Some g" "map_of d ''danger_odds'' = None"
  | (danger_refused) c s so g go where "map_of d ''conditions'' = Some c"
      "map_of d ''selection'' = Some s" "map_of d ''selection_odds'' = Some so"
      "metric_accepts s" "metric_accepts so"
      "map_of d ''danger'' = Some g" "map_of d ''danger_odds'' = Some go"
      "\<not> (metric_accepts g \<and> metric_accepts go)"
  | (no_logic) c s so g go where "map_of d ''conditions'' = Some c"
      "map_of d ''selection'' = Some s" "map_of d ''selection_odds'' = Some so"
      "metric_accepts s" "metric_accepts so"
      "map_of d ''danger'' = Some g" "map_of d ''danger_odds'' = Some go"
      "metric_accepts g" "metric_accepts go" "map_of d ''logic'' = None"
proof (cases "map_of d ''conditions''")
  case None
  from that(2) [OF None] show ?thesis .
next
  case c: (Some c)
  show ?thesis
  proof (cases "map_of d ''selection''")
    case None
    from that(3) [OF c None] show ?thesis .
  next
    case s: (Some s)
    show ?thesis
    proof (cases "map_of d ''selection_odds''")
      case None
      from that(4) [OF c s None] show ?thesis .
    next
      case so: (Some so)
      show ?thesis
      proof (cases "metric_accepts s \<and> metric_accepts so")
        case False
        from that(5) [OF c s so False] show ?thesis .
      next
        case True
        then have a1: "metric_accepts s" and a2: "metric_accepts so"
          by simp_all
        show ?thesis
        proof (cases "map_of d ''danger''")
          case None
          from that(6) [OF c s so a1 a2 None] show ?thesis .
        next
          case g: (Some g)
          show ?thesis
          proof (cases "map_of d ''danger_odds''")
            case None
            from that(7) [OF c s so a1 a2 g None] show ?thesis .
          next
            case go: (Some go)
            show ?thesis
            proof (cases "metric_accepts g \<and> metric_accepts go")
              case False
              from that(8) [OF c s so a1 a2 g go False] show ?thesis .
            next
              case True
              then have a3: "metric_accepts g" and a4: "metric_accepts go"
                by simp_all
              show ?thesis
              proof (cases "map_of d ''logic''")
                case None
                from that(9) [OF c s so a1 a2 g go a3 a4 None] show ?thesis .
              next
                case (Some l)
                from that(1) [OF c s so a1 a2 g go a3 a4 Some] show ?thesis .
              qed
            qed
          qed
        qed
      qed
    qed
  qed
qed

subsection \<open>A submitted run\<close>

lemma run_submitted:
  assumes "submitted f" and "setup_ok E f"
  shows "run E f =
    (sidebar f @
     [GenaiConfigure (api_key f), StStatus working_label, NewGenerationConfig,
      NewGenerativeModel (system_instruction f), StatusWrite finding_note] @
     fst (try_except (attempt E f) handler), None)"
  using assms
  by (simp add: run_def agent_def submitted_def setup_ok_def call_def emit_def
      try_except_handler_returns)

lemma run_failed:
  assumes "submitted f" and "setup_ok E f"
    and "attempt E f = ([GenerateContent (system_instruction f) (user_prompt f)], Some e)"
  shows "run E f = (up_to_call f @ error_report e, None)"
  using assms by (simp add: run_submitted try_except_handler up_to_call_def)

lemma run_decoded:
  assumes "submitted f" and "setup_ok E f"
    and "generate_content E (api_key f) (system_instruction f) (user_prompt f) = Inr (Inr text)"
    and "loads E text = Inr data"
    and "display E (meeting f) data = (evs, r)"
  shows "run E f =
    (up_to_call f @ evs @ (case r of None \<Rightarrow> [] | Some e \<Rightarrow> error_report e), None)"
  using assms
  by (simp add: run_submitted try_except_handler up_to_call_def attempt_def
      split: option.splits)

lemma display_no_banner:
  assumes "display E m (PDict d) = (evs, r)" and "alert_shown E d = []"
  shows "\<not> list_ex alert_banner evs"
proof (cases d rule: dict_cases)
  case complete
  with assms show ?thesis by (simp add: display_complete analysis_complete_def) auto
next
  case no_conditions
  with assms show ?thesis by (simp add: display_no_conditions analysis_complete_def) auto
next
  case no_selection
  with assms show ?thesis by (simp add: display_no_selection analysis_complete_def) auto
next
  case no_selection_odds
  with assms show ?thesis by (simp add: display_no_selection_odds analysis_complete_def) auto
next
  case selection_refused
  with assms show ?thesis by (simp add: display_selection_refused analysis_complete_def) auto
next
  case no_danger
  with assms show ?thesis by (simp add: display_no_danger analysis_complete_def) auto
next
  case no_danger_odds
  with assms show ?thesis by (simp add: display_no_danger_odds analysis_complete_def) auto
next
  case danger_refused
  with assms show ?thesis by (simp add: display_danger_refused analysis_complete_def) auto
next
  case no_logic
  with assms show ?thesis by (simp add: display_no_logic analysis_complete_def) auto
qed

text \<open>
  What the display of a dict has done when a required key is missing: it has raised,
  for a missing required key or for a card that \<^verbatim>\<open>st.metric\<close> refuses, after the
  events of the steps before, among which there is no logic panel.
\<close>

lemma display_prefix:
  "prefix (analysis_complete # alert_shown E d) (fst (display E m (PDict d)))"
proof (cases d rule: dict_cases)
  case complete
  then show ?thesis by (simp add: display_complete)
next
  case no_conditions
  then show ?thesis by (simp add: display_no_conditions)
next
  case no_selection
  then show ?thesis by (simp add: display_no_selection)
next
  case no_selection_odds
  then show ?thesis by (simp add: display_no_selection_odds)
next
  case selection_refused
  then show ?thesis by (simp add: display_selection_refused)
next
  case no_danger
  then show ?thesis by (simp add: display_no_danger)
next
  case no_danger_odds
  then show ?thesis by (simp add: display_no_danger_odds)
next
  case danger_refused
  then show ?thesis by (simp add: display_danger_refused)
next
  case no_logic
  then show ?thesis by (simp add: display_no_logic)
qed


subsection \<open>The guards of the agent branch\<close>

text \<open>
  Claim C3. For every submission (the button was pressed) in which the API key is
  empty, whether it came from the secret store or from the key field, and whatever
  the other inputs are, the run makes no call into the generation client, so the
  generation service is never invoked, and it shows the warning asking for the key.
\<close>

theorem missing_credential_blocks_call:
  assumes "start_btn f" and "api_key f = []"
  shows "run E f = (sidebar f @ [StWarning ''Please enter your API Key.''], None) \<and>
         \<not> list_ex genai_call (fst (run E f))"
  using assms by (simp add: run_def sidebar_only_note)

theorem missing_credential_blocks_call_witness:
  "start_btn (newbury\<lparr>typed_key := []\<rparr>) \<and> api_key (newbury\<lparr>typed_key := []\<rparr>) = [] \<and>
   run (answering scenario_1_text decode_fails) (newbury\<lparr>typed_key := []\<rparr>) =
     ([StWarning ''Please enter your API Key.''], None) \<and>
   \<not> list_ex genai_call
     (fst (run (answering scenario_1_text decode_fails) (newbury\<lparr>typed_key := []\<rparr>)))"
proof -
  have b: "start_btn (newbury\<lparr>typed_key := []\<rparr>)"
    by (simp add: newbury_def)
  have k: "api_key (newbury\<lparr>typed_key := []\<rparr>) = []"
    by (simp add: newbury_def api_key_def)
  have s: "sidebar (newbury\<lparr>typed_key := []\<rparr>) = []"
    by (simp add: newbury_def sidebar_def)
  from missing_credential_blocks_call [OF b k, of "answering scenario_1_text decode_fails"]
  show ?thesis using b k s by simp
qed

text \<open>
  Claim C6. For every run in which the meeting name is empty, whatever the key and
  the other inputs are, no call into the generation client is made: the run shows at
  most the sidebar note and, when the key is empty too and the button was pressed,
  the warning asking for the key.
\<close>

theorem missing_meeting_blocks_call:
  assumes "meeting f = []"
  shows "\<not> list_ex genai_call (fst (run E f)) \<and>
         run E f =
           (sidebar f @
            (if start_btn f \<and> api_key f = [] then [StWarning ''Please enter your API Key.'']
             else []), None)"
  using assms by (simp add: run_def sidebar_only_note)

theorem missing_meeting_blocks_call_witness:
  "meeting (newbury\<lparr>meeting := []\<rparr>) = [] \<and>
   \<not> list_ex genai_call
     (fst (run (answering scenario_1_text decode_fails) (newbury\<lparr>meeting := []\<rparr>))) \<and>
   run (answering scenario_1_text decode_fails) (newbury\<lparr>meeting := []\<rparr>) = ([], None)"
proof -
  have m: "meeting (newbury\<lparr>meeting := []\<rparr>) = []"
    by simp
  have k: "api_key (newbury\<lparr>meeting := []\<rparr>) = ''key''"
    by (simp add: newbury_def api_key_def)
  have s: "sidebar (newbury\<lparr>meeting := []\<rparr>) = []"
    by (simp add: newbury_def sidebar_def)
  from missing_meeting_blocks_call [OF m, of "answering scenario_1_text decode_fails"]
  show ?thesis using m k s by simp
qed

subsection \<open>Malformed responses\<close>




subsection \<open>Exceptions\<close>

text \<open>
  Claim C5, as stated, fails on the code. The \<^verbatim>\<open>try\<close> block begins at line 90;
  \<^verbatim>\<open>genai.configure\<close> (line 55) and the construction of the generation config and
  of the model (lines 63 to 86) come before it. When the construction of the model
  raises in a submitted run, the exception leaves the script: the error branch is
  not reached and no error message is shown.
\<close>

theorem exceptions_reported_counterexample:
  "submitted newbury \<and>
   run model_rejected newbury =
     ([GenaiConfigure ''key'', StStatus working_label, NewGenerationConfig,
       NewGenerativeModel (system_instruction newbury)],
      Some (LibraryError ''Unknown field for Tool''))"
  by (simp add: submitted_def run_def agent_def model_rejected_def answering_def newbury_def
      api_key_def sidebar_def call_def emit_def)

text \<open>
  Claim C5, amended. In a submitted run in which the three client calls made before
  the \<^verbatim>\<open>try\<close> block do not raise, no exception leaves the script, whatever happens
  in the block; and an exception raised by the call to the service, by reading the
  text of its response or by \<^verbatim>\<open>json.loads\<close> is caught and reported as one error
  message made of "Oops: " and the text of the exception, with nothing rendered
  between the call and the report.
\<close>

theorem exceptions_in_try_reported:
  assumes "submitted f" and "setup_ok E f"
  shows "snd (run E f) = None \<and>
    (generate_content E (api_key f) (system_instruction f) (user_prompt f) = Inl e \<or>
     generate_content E (api_key f) (system_instruction f) (user_prompt f) = Inr (Inl e) \<or>
     (\<exists>text. generate_content E (api_key f) (system_instruction f) (user_prompt f) =
          Inr (Inr text) \<and> loads E text = Inl e) \<longrightarrow>
       run E f = (up_to_call f @ error_report e, None) \<and>
       filter error_message (fst (run E f)) = [StError (''Oops: '' @ exn_str e)])"
proof (intro conjI impI)
  show "snd (run E f) = None"
    using assms by (simp add: run_submitted)
  assume "generate_content E (api_key f) (system_instruction f) (user_prompt f) = Inl e \<or>
     generate_content E (api_key f) (system_instruction f) (user_prompt f) = Inr (Inl e) \<or>
     (\<exists>text. generate_content E (api_key f) (system_instruction f) (user_prompt f) =
          Inr (Inr text) \<and> loads E text = Inl e)"
  then have "attempt E f = ([GenerateContent (system_instruction f) (user_prompt f)], Some e)"
    by (auto simp: attempt_def)
  from run_failed [OF assms this]
  show r: "run E f = (up_to_call f @ error_report e, None)" .
  show "filter error_message (fst (run E f)) = [StError (''Oops: '' @ exn_str e)]"
    by (simp add: r)
qed

theorem exceptions_in_try_reported_witness:
  "submitted newbury \<and> setup_ok service_down newbury \<and>
   generate_content service_down (api_key newbury) (system_instruction newbury)
     (user_prompt newbury) = Inl (LibraryError ''503 Service Unavailable'') \<and>
   run service_down newbury =
     (up_to_call newbury @
      [StatusUpdate ''Error'' ''error'', StError ''Oops: 503 Service Unavailable''], None) \<and>
   generate_content answer_blocked (api_key newbury) (system_instruction newbury)
     (user_prompt newbury) = Inr (Inl (LibraryError ''The response has no text'')) \<and>
   run answer_blocked newbury =
     (up_to_call newbury @
      [StatusUpdate ''Error'' ''error'', StError ''Oops: The response has no text''], None) \<and>
   loads (answering not_json_text decode_fails) not_json_text =
     Inl (LibraryError ''Expecting value: line 1 column 1 (char 0)'') \<and>
   run (answering not_json_text decode_fails) newbury =
     (up_to_call newbury @
      [StatusUpdate ''Error'' ''error'',
       StError ''Oops: Expecting value: line 1 column 1 (char 0)''], None)"
proof -
  let ?C = "answering not_json_text decode_fails"
  have sub: "submitted newbury"
    by (simp add: submitted_def newbury_def api_key_def)
  have ok: "setup_ok service_down newbury" "setup_ok answer_blocked newbury"
    "setup_ok ?C newbury"
    by (simp_all add: setup_ok_def service_down_def answer_blocked_def answering_def)
  have a: "generate_content service_down (api_key newbury) (system_instruction newbury)
     (user_prompt newbury) = Inl (LibraryError ''503 Service Unavailable'')"
    by (simp add: service_down_def)
  have b: "generate_content answer_blocked (api_key newbury) (system_instruction newbury)
     (user_prompt newbury) = Inr (Inl (LibraryError ''The response has no text''))"
    by (simp add: answer_blocked_def)
  have c: "generate_content ?C (api_key newbury) (system_instruction newbury)
     (user_prompt newbury) = Inr (Inr not_json_text)"
    "loads ?C not_json_text = Inl (LibraryError ''Expecting value: line 1 column 1 (char 0)'')"
    by (simp_all add: answering_def decode_fails_def)
  from exceptions_in_try_reported [OF sub ok(1), of "LibraryError ''503 Service Unavailable''"]
    exceptions_in_try_reported [OF sub ok(2), of "LibraryError ''The response has no text''"]
    exceptions_in_try_reported [OF sub ok(3),
      of "LibraryError ''Expecting value: line 1 column 1 (char 0)''"]
  show ?thesis using sub ok(1) a b c by (simp add: error_report_def)
qed

text \<open>
  Claim C10. For a submitted run whose response text is valid JSON but decodes to
  something other than an object (a list, a string, a number, a boolean or null),
  \<^verbatim>\<open>data.get\<close> raises an AttributeError inside the \<^verbatim>\<open>try\<close> block: the run takes the
  error branch and reports that one error, as it does for text that does not decode
  (only the status line was set to complete before); it does not crash and renders
  no success output.
\<close>

theorem non_object_response_error:
  assumes "submitted f" and "setup_ok E f"
    and "generate_content E (api_key f) (system_instruction f) (user_prompt f) = Inr (Inr text)"
    and "loads E text = Inr data" and "\<not> is_dict data"
  shows "run E f =
    (up_to_call f @ [analysis_complete] @
     error_report (AttributeError
       ([CHR 0x27] @ type_name data @ [CHR 0x27] @ '' object has no attribute '' @
        [CHR 0x27] @ ''get'' @ [CHR 0x27])), None) \<and>
    \<not> list_ex success_output (fst (run E f)) \<and>
    length (filter error_message (fst (run E f))) = 1"
  using run_decoded [OF assms(1-4) display_not_dict [OF assms(5)]]
  by (simp add: analysis_complete_def)

theorem non_object_response_error_witness:
  "submitted newbury \<and>
   loads (answering list_text (decode_only list_text list_data)) list_text = Inr list_data \<and>
   \<not> is_dict list_data \<and>
   run (answering list_text (decode_only list_text list_data)) newbury =
    (up_to_call newbury @
     [analysis_complete, StatusUpdate ''Error'' ''error'',
      StError (''Oops: '' @ [CHR 0x27] @ ''list'' @ [CHR 0x27] @ '' object has no attribute '' @
        [CHR 0x27] @ ''get'' @ [CHR 0x27])], None)"
proof -
  let ?E = "answering list_text (decode_only list_text list_data)"
  have sub: "submitted newbury"
    by (simp add: submitted_def newbury_def api_key_def)
  have ok: "setup_ok ?E newbury"
    by (simp add: setup_ok_def answering_def)
  have gen: "generate_content ?E (api_key newbury) (system_instruction newbury)
      (user_prompt newbury) = Inr (Inr list_text)"
    by (simp add: answering_def)
  have dec: "loads ?E list_text = Inr list_data"
    by (simp add: answering_def decode_only_def)
  have nd: "\<not> is_dict list_data"
    by (simp add: list_data_def)
  from non_object_response_error [OF sub ok gen dec nd]
  show ?thesis using sub dec nd by (simp add: error_report_def list_data_def)
qed

subsection \<open>Well-formed responses\<close>

text \<open>
  Claim C4, as stated, fails on the code. A response that is well-formed JSON and
  holds every required key need not be rendered: the values are handed to
  \<^verbatim>\<open>st.metric\<close> as they are, and when \<open>selection\<close> is a JSON list the call raises
  inside the \<^verbatim>\<open>try\<close> block. The run shows the caption and then the error; no card
  and no logic panel is rendered.
\<close>

theorem well_formed_response_counterexample:
  "loads (answering list_selection_text
            (decode_only list_selection_text (PDict list_selection_data)))
     list_selection_text = Inr (PDict list_selection_data) \<and>
   list_all (\<lambda>k. map_of list_selection_data k \<noteq> None) required_keys \<and>
   map_of list_selection_data ''selection'' =
     Some (PList [PStr ''Storm King'', PStr ''Bay Breeze'']) \<and>
   run (answering list_selection_text
          (decode_only list_selection_text (PDict list_selection_data))) newbury =
     (up_to_call newbury @
      [analysis_complete,
       StCaption ([CHR 0xF0, CHR 0x9F, CHR 0x93, CHR 0x8D] @ '' Newbury '' @
                  [CHR 0xE2, CHR 0x80, CHR 0xA2] @ '' Soft, 2m4f''),
       StColumns 2,
       StatusUpdate ''Error'' ''error'',
       StError ''Oops: not an accepted type''], None)"
proof -
  let ?d = list_selection_data
  let ?E = "answering list_selection_text (decode_only list_selection_text (PDict ?d))"
  have sub: "submitted newbury"
    by (simp add: submitted_def newbury_def api_key_def)
  have ok: "setup_ok ?E newbury"
    by (simp add: setup_ok_def answering_def)
  have gen: "generate_content ?E (api_key newbury) (system_instruction newbury)
      (user_prompt newbury) = Inr (Inr list_selection_text)"
    by (simp add: answering_def)
  have dec: "loads ?E list_selection_text = Inr (PDict ?d)"
    by (simp add: answering_def decode_only_def)
  have none: "alert_shown ?E ?d = []"
    by (rule alert_shown_falsy) (simp add: list_selection_data_def dict_get_def)
  have disp: "display ?E (meeting newbury) (PDict ?d) =
    (analysis_complete # alert_shown ?E ?d @
     [caption_of ?E (meeting newbury) (PStr ''Soft, 2m4f''), StColumns 2],
     Some (metric_refusal ?E (PList [PStr ''Storm King'', PStr ''Bay Breeze'']) (PStr ''4/1'')))"
    by (rule display_selection_refused) (simp_all add: list_selection_data_def)
  have m: "meeting newbury = ''Newbury''"
    by (simp add: newbury_def)
  have refusal: "metric_refusal ?E (PList [PStr ''Storm King'', PStr ''Bay Breeze''])
      (PStr ''4/1'') = LibraryError ''not an accepted type''"
    by (simp add: answering_def)
  have r: "run ?E newbury =
     (up_to_call newbury @
      [analysis_complete,
       StCaption ([CHR 0xF0, CHR 0x9F, CHR 0x93, CHR 0x8D] @ '' Newbury '' @
                  [CHR 0xE2, CHR 0x80, CHR 0xA2] @ '' Soft, 2m4f''),
       StColumns 2,
       StatusUpdate ''Error'' ''error'',
       StError ''Oops: not an accepted type''], None)"
    using run_decoded [OF sub ok gen dec disp] none m refusal
    by (simp add: error_report_def caption_of_def)
  have "list_all (\<lambda>k. map_of ?d k \<noteq> None) required_keys"
    "map_of ?d ''selection'' = Some (PList [PStr ''Storm King'', PStr ''Bay Breeze''])"
    by (simp_all add: required_keys_def list_selection_data_def)
  then show ?thesis
    using dec r by simp
qed

text \<open>
  Claim C4, amended. For a submitted run whose response text decodes to an object
  holding every required key, in which the values of \<open>selection\<close>,
  \<open>selection_odds\<close>, \<open>danger\<close> and \<open>danger_odds\<close> are null, booleans, numbers or
  strings (not lists or objects), the run does not fail and renders each field as it
  is in the object: the two cards are given the values of \<open>selection\<close>,
  \<open>selection_odds\<close>, \<open>danger\<close> and \<open>danger_odds\<close> unchanged, the logic panel the
  value of \<open>logic\<close> unchanged, and the caption shows the meeting and the
  \<^verbatim>\<open>str()\<close> of \<open>conditions\<close>, which for a string is the string itself. The only
  thing computed from the response is whether the alert banner is shown.
\<close>

theorem well_formed_response_rendered:
  assumes "submitted f" and "setup_ok E f"
    and "generate_content E (api_key f) (system_instruction f) (user_prompt f) = Inr (Inr text)"
    and "loads E text = Inr (PDict d)"
    and "map_of d ''conditions'' = Some c"
    and "map_of d ''selection'' = Some s" and "map_of d ''selection_odds'' = Some so"
    and "metric_accepts s" and "metric_accepts so"
    and "map_of d ''danger'' = Some g" and "map_of d ''danger_odds'' = Some go"
    and "metric_accepts g" and "metric_accepts go"
    and "map_of d ''logic'' = Some l"
  shows "run E f =
    (up_to_call f @ analysis_complete # alert_shown E d @
     [StCaption
        ([CHR 0xF0, CHR 0x9F, CHR 0x93, CHR 0x8D] @ '' '' @ meeting f @
         '' '' @ [CHR 0xE2, CHR 0x80, CHR 0xA2] @ '' '' @
         (case c of PStr t \<Rightarrow> t | _ \<Rightarrow> str_of E c)),
      StColumns 2,
      StMetric selection_label s so ''normal'', StMetric danger_label g go ''inverse'',
      StDivider, StSubheader logic_heading, StInfo l], None)"
  using run_decoded [OF assms(1-4) display_complete [OF assms(5-14)]]
  by (simp add: caption_of_def)

theorem well_formed_response_rendered_witness:
  "submitted newbury \<and>
   loads (answering smith_text (decode_only smith_text (PDict (alert_data (PStr ''J. Smith booked'')))))
     smith_text = Inr (PDict (alert_data (PStr ''J. Smith booked''))) \<and>
   metric_accepts (PStr ''Storm King'') \<and> metric_accepts (PStr ''4/1'') \<and>
   metric_accepts (PStr ''Bay Breeze'') \<and> metric_accepts (PStr ''7/2'') \<and>
   run (answering smith_text (decode_only smith_text (PDict (alert_data (PStr ''J. Smith booked'')))))
     newbury =
    (up_to_call newbury @
     [analysis_complete,
      StError ([CHR 0xF0, CHR 0x9F, CHR 0x9A, CHR 0xA8] @ '' **JOCKEY ALERT:** J. Smith booked''),
      StCaption ([CHR 0xF0, CHR 0x9F, CHR 0x93, CHR 0x8D] @ '' Newbury '' @
                 [CHR 0xE2, CHR 0x80, CHR 0xA2] @ '' Soft, 2m4f''),
      StColumns 2,
      StMetric selection_label (PStr ''Storm King'') (PStr ''4/1'') ''normal'',
      StMetric danger_label (PStr ''Bay Breeze'') (PStr ''7/2'') ''inverse'',
      StDivider, StSubheader logic_heading, StInfo (PStr ''Soft ground favors stamina.'')],
     None)"
proof -
  let ?d = "alert_data (PStr ''J. Smith booked'')"
  let ?E = "answering smith_text (decode_only smith_text (PDict ?d))"
  have sub: "submitted newbury"
    by (simp add: submitted_def newbury_def api_key_def)
  have ok: "setup_ok ?E newbury"
    by (simp add: setup_ok_def answering_def)
  have gen: "generate_content ?E (api_key newbury) (system_instruction newbury)
      (user_prompt newbury) = Inr (Inr smith_text)"
    by (simp add: answering_def)
  have dec: "loads ?E smith_text = Inr (PDict ?d)"
    by (simp add: answering_def decode_only_def)
  have c: "map_of ?d ''conditions'' = Some (PStr ''Soft, 2m4f'')"
    and s: "map_of ?d ''selection'' = Some (PStr ''Storm King'')"
    and so: "map_of ?d ''selection_odds'' = Some (PStr ''4/1'')"
    and g: "map_of ?d ''danger'' = Some (PStr ''Bay Breeze'')"
    and go: "map_of ?d ''danger_odds'' = Some (PStr ''7/2'')"
    and l: "map_of ?d ''logic'' = Some (PStr ''Soft ground favors stamina.'')"
    by (simp_all add: alert_data_def)
  have acc: "metric_accepts (PStr ''Storm King'')" "metric_accepts (PStr ''4/1'')"
    "metric_accepts (PStr ''Bay Breeze'')" "metric_accepts (PStr ''7/2'')"
    by simp_all
  have alert: "alert_shown ?E ?d =
      [StError ([CHR 0xF0, CHR 0x9F, CHR 0x9A, CHR 0xA8] @ '' **JOCKEY ALERT:** J. Smith booked'')]"
    by (simp add: alert_shown_def banner_cases dict_get_def alert_data_def alert_prefix_def)
  have m: "meeting newbury = ''Newbury''"
    by (simp add: newbury_def)
  from well_formed_response_rendered
    [OF sub ok gen dec c s so acc(1,2) g go acc(3,4) l]
  show ?thesis using sub dec acc alert m by simp
qed

text \<open>
  Claim C8, as stated, fails on the code. In the first end-to-end scenario the
  caption that the run shows is not the text "Newbury", bullet, "Soft, 2m4f" that
  the claim quotes: line 108 puts the pin sign and a space in front of the meeting.
  The run shows exactly one caption, and it is the longer text.
\<close>

theorem newbury_scenario_counterexample:
  "filter caption
     (fst (run (answering scenario_1_text (decode_only scenario_1_text (PDict scenario_1_data)))
        newbury)) =
     [StCaption ([CHR 0xF0, CHR 0x9F, CHR 0x93, CHR 0x8D] @ '' Newbury '' @
                 [CHR 0xE2, CHR 0x80, CHR 0xA2] @ '' Soft, 2m4f'')] \<and>
   StCaption ([CHR 0xF0, CHR 0x9F, CHR 0x93, CHR 0x8D] @ '' Newbury '' @
              [CHR 0xE2, CHR 0x80, CHR 0xA2] @ '' Soft, 2m4f'') \<noteq>
   StCaption (''Newbury '' @ [CHR 0xE2, CHR 0x80, CHR 0xA2] @ '' Soft, 2m4f'')"
proof -
  let ?E = "answering scenario_1_text (decode_only scenario_1_text (PDict scenario_1_data))"
  have sub: "submitted newbury"
    by (simp add: submitted_def newbury_def api_key_def)
  have ok: "setup_ok ?E newbury"
    by (simp add: setup_ok_def answering_def)
  have gen: "generate_content ?E (api_key newbury) (system_instruction newbury)
      (user_prompt newbury) = Inr (Inr scenario_1_text)"
    by (simp add: answering_def)
  have dec: "loads ?E scenario_1_text = Inr (PDict scenario_1_data)"
    by (simp add: answering_def decode_only_def)
  have none: "alert_shown ?E scenario_1_data = []"
    by (rule alert_shown_falsy) (simp add: scenario_1_data_def dict_get_def)
  have disp: "display ?E (meeting newbury) (PDict scenario_1_data) =
    (analysis_complete # alert_shown ?E scenario_1_data @
     [caption_of ?E (meeting newbury) (PStr ''Soft, 2m4f''), StColumns 2,
      StMetric selection_label (PStr ''Storm King'') (PStr ''4/1'') ''normal'',
      StMetric danger_label (PStr ''Bay Breeze'') (PStr ''7/2'') ''inverse'',
      StDivider, StSubheader logic_heading, StInfo (PStr ''Soft ground favors stamina.'')],
     None)"
    by (rule display_complete) (simp_all add: scenario_1_data_def)
  have m: "meeting newbury = ''Newbury''"
    by (simp add: newbury_def)
  show ?thesis
    using run_decoded [OF sub ok gen dec disp] none m
    by (simp add: caption_of_def analysis_complete_def)
qed

text \<open>
  Claim C8, amended. The first end-to-end scenario: meeting Newbury, 15:35 on
  2024-06-01, a Win bet, and the response text of the specification, decoded by
  \<^verbatim>\<open>json.loads\<close> to the object it denotes. The run asks the service with the prompt
  built from these inputs and then shows, in this order and with no alert banner:
  the caption, which is the pin sign, a space, "Newbury", a bullet between spaces and
  "Soft, 2m4f"; the selection card with value "Storm King" and delta "4/1"; the
  danger card with value "Bay Breeze" and delta "7/2"; and the logic text as given.
\<close>

theorem newbury_scenario:
  assumes "meeting f = ''Newbury''" and "race_time f = \<lparr>hour = 15, minute = 35\<rparr>"
    and "race_date f = \<lparr>year = 2024, month = 6, day = 1\<rparr>" and "bet_type f = Win"
    and "start_btn f" and "api_key f \<noteq> []" and "setup_ok E f"
    and "generate_content E (api_key f) (system_instruction f)
           ''Analyze the 15:35:00 race at Newbury (2024-06-01) for a Win bet.'' =
         Inr (Inr scenario_1_text)"
    and "loads E scenario_1_text = Inr (PDict scenario_1_data)"
  shows "user_prompt f = ''Analyze the 15:35:00 race at Newbury (2024-06-01) for a Win bet.'' \<and>
    run E f =
    (up_to_call f @
     [StatusUpdate ''Analysis Complete'' ''complete'',
      StCaption ([CHR 0xF0, CHR 0x9F, CHR 0x93, CHR 0x8D] @ '' Newbury '' @
                 [CHR 0xE2, CHR 0x80, CHR 0xA2] @ '' Soft, 2m4f''),
      StColumns 2,
      StMetric ([CHR 0xF0, CHR 0x9F, CHR 0x8F, CHR 0x86] @ '' THE SELECTION'')
        (PStr ''Storm King'') (PStr ''4/1'') ''normal'',
      StMetric ([CHR 0xE2, CHR 0x9A, CHR 0xA0, CHR 0xEF, CHR 0xB8, CHR 0x8F] @ '' THE DANGER'')
        (PStr ''Bay Breeze'') (PStr ''7/2'') ''inverse'',
      StDivider,
      StSubheader ([CHR 0xF0, CHR 0x9F, CHR 0x93, CHR 0x9D] @ '' The Logic''),
      StInfo (PStr ''Soft ground favors stamina.'')],
     None)"
proof -
  have p: "user_prompt f = ''Analyze the 15:35:00 race at Newbury (2024-06-01) for a Win bet.''"
    using assms(1-4)
    by (simp add: user_prompt_def time_str_def date_str_def pad2_def pad4_def digit_def)
  have sub: "submitted f"
    using assms(1,5,6) by (simp add: submitted_def)
  have gen: "generate_content E (api_key f) (system_instruction f) (user_prompt f) =
      Inr (Inr scenario_1_text)"
    using assms(8) p by simp
  have none: "alert_shown E scenario_1_data = []"
    by (rule alert_shown_falsy) (simp add: scenario_1_data_def dict_get_def)
  have disp: "display E (meeting f) (PDict scenario_1_data) =
    (analysis_complete # alert_shown E scenario_1_data @
     [caption_of E (meeting f) (PStr ''Soft, 2m4f''), StColumns 2,
      StMetric selection_label (PStr ''Storm King'') (PStr ''4/1'') ''normal'',
      StMetric danger_label (PStr ''Bay Breeze'') (PStr ''7/2'') ''inverse'',
      StDivider, StSubheader logic_heading, StInfo (PStr ''Soft ground favors stamina.'')],
     None)"
    by (rule display_complete) (simp_all add: scenario_1_data_def)
  from run_decoded [OF sub assms(7) gen assms(9) disp]
  show ?thesis using p none assms(1)
    by (simp add: caption_of_def analysis_complete_def selection_label_def danger_label_def
        logic_heading_def)
qed

theorem newbury_scenario_witness:
  "meeting newbury = ''Newbury'' \<and> race_time newbury = \<lparr>hour = 15, minute = 35\<rparr> \<and>
   race_date newbury = \<lparr>year = 2024, month = 6, day = 1\<rparr> \<and> bet_type newbury = Win \<and>
   start_btn newbury \<and> api_key newbury \<noteq> [] \<and>
   loads (answering scenario_1_text (decode_only scenario_1_text (PDict scenario_1_data)))
     scenario_1_text = Inr (PDict scenario_1_data) \<and>
   run (answering scenario_1_text (decode_only scenario_1_text (PDict scenario_1_data)))
     newbury =
    (up_to_call newbury @
     [StatusUpdate ''Analysis Complete'' ''complete'',
      StCaption ([CHR 0xF0, CHR 0x9F, CHR 0x93, CHR 0x8D] @ '' Newbury '' @
                 [CHR 0xE2, CHR 0x80, CHR 0xA2] @ '' Soft, 2m4f''),
      StColumns 2,
      StMetric ([CHR 0xF0, CHR 0x9F, CHR 0x8F, CHR 0x86] @ '' THE SELECTION'')
        (PStr ''Storm King'') (PStr ''4/1'') ''normal'',
      StMetric ([CHR 0xE2, CHR 0x9A, CHR 0xA0, CHR 0xEF, CHR 0xB8, CHR 0x8F] @ '' THE DANGER'')
        (PStr ''Bay Breeze'') (PStr ''7/2'') ''inverse'',
      StDivider,
      StSubheader ([CHR 0xF0, CHR 0x9F, CHR 0x93, CHR 0x9D] @ '' The Logic''),
      StInfo (PStr ''Soft ground favors stamina.'')],
     None)"
proof -
  let ?E = "answering scenario_1_text (decode_only scenario_1_text (PDict scenario_1_data))"
  have f: "meeting newbury = ''Newbury''" "race_time newbury = \<lparr>hour = 15, minute = 35\<rparr>"
    "race_date newbury = \<lparr>year = 2024, month = 6, day = 1\<rparr>" "bet_type newbury = Win"
    "start_btn newbury" "api_key newbury \<noteq> []"
    by (simp_all add: newbury_def api_key_def)
  have ok: "setup_ok ?E newbury"
    by (simp add: setup_ok_def answering_def)
  have gen: "generate_content ?E (api_key newbury) (system_instruction newbury)
      ''Analyze the 15:35:00 race at Newbury (2024-06-01) for a Win bet.'' =
      Inr (Inr scenario_1_text)"
    by (simp add: answering_def)
  have dec: "loads ?E scenario_1_text = Inr (PDict scenario_1_data)"
    by (simp add: answering_def decode_only_def)
  from newbury_scenario [OF f ok gen dec]
  show ?thesis using f dec by simp
qed

subsection \<open>The jockey alert\<close>

text \<open>
  Claim C2, as stated, fails on the code. The empty string is a string value other
  than "null", yet the guard of line 104 tests the truth value of
  \<^verbatim>\<open>data.get("jockey_alert")\<close> first, and an empty string is false: no banner.
\<close>

theorem jockey_alert_normalization_counterexample:
  "map_of [(''jockey_alert'', PStr [])] ''jockey_alert'' = Some (PStr []) \<and>
   [] \<noteq> ''null'' \<and>
   jockey_alert_banner (answering scenario_1_text decode_fails) [(''jockey_alert'', PStr [])] =
     ([], None)"
  by (simp add: banner_cases dict_get_def)

text \<open>
  Claim C2, amended. The guard and banner of lines 104 and 105 never raise on a
  decoded object. When the key \<open>jockey_alert\<close> is absent, or its value is null or the
  string "null", no banner is shown; for every other string value that is not empty,
  the banner is shown and carries exactly that string after the fixed prefix.
\<close>

theorem jockey_alert_normalization:
  "snd (jockey_alert_banner E d) = None \<and>
   (map_of d ''jockey_alert'' = None \<or> map_of d ''jockey_alert'' = Some PNone \<or>
    map_of d ''jockey_alert'' = Some (PStr ''null'') \<longrightarrow>
      jockey_alert_banner E d = ([], None)) \<and>
   (map_of d ''jockey_alert'' = Some (PStr s) \<and> s \<noteq> ''null'' \<and> s \<noteq> [] \<longrightarrow>
      jockey_alert_banner E d = ([StError (alert_prefix @ s)], None))"
  by (auto simp: banner_cases dict_get_def)

theorem jockey_alert_normalization_witness:
  "map_of scenario_1_data ''jockey_alert'' = Some PNone \<and>
   jockey_alert_banner (answering scenario_1_text decode_fails) scenario_1_data = ([], None) \<and>
   map_of (alert_data (PStr ''J. Smith booked'')) ''jockey_alert'' =
     Some (PStr ''J. Smith booked'') \<and>
   ''J. Smith booked'' \<noteq> ''null'' \<and> ''J. Smith booked'' \<noteq> [] \<and>
   jockey_alert_banner (answering scenario_1_text decode_fails)
     (alert_data (PStr ''J. Smith booked'')) =
     ([StError (alert_prefix @ ''J. Smith booked'')], None)"
proof -
  have n: "map_of scenario_1_data ''jockey_alert'' = Some PNone"
    by (simp add: scenario_1_data_def)
  have a: "map_of (alert_data (PStr ''J. Smith booked'')) ''jockey_alert'' =
      Some (PStr ''J. Smith booked'')"
    by (simp add: alert_data_def)
  from jockey_alert_normalization
    [of "answering scenario_1_text decode_fails" scenario_1_data "[]"]
    jockey_alert_normalization
    [of "answering scenario_1_text decode_fails" "alert_data (PStr ''J. Smith booked'')"
      "''J. Smith booked''"]
  show ?thesis using n a by simp
qed

text \<open>
  Claim C9. The guard tests the truth value of the field, so every value that Python
  takes as false, among them the empty string, \<^verbatim>\<open>false\<close> and \<^verbatim>\<open>0\<close>, gives no
  banner, as an absent key, null and the string "null" do: the guard shows nothing,
  and a submitted run whose response decodes to such an object has no alert banner
  among its events.
\<close>

theorem falsy_alert_no_banner:
  "\<not> truthy (PStr []) \<and> \<not> truthy (PBool False) \<and> \<not> truthy (PInt 0) \<and> \<not> truthy PNone \<and>
   (map_of d ''jockey_alert'' = None \<or> map_of d ''jockey_alert'' = Some (PStr ''null'') \<or>
    (\<exists>v. map_of d ''jockey_alert'' = Some v \<and> \<not> truthy v) \<longrightarrow>
      jockey_alert_banner E d = ([], None) \<and>
      (submitted f \<and> setup_ok E f \<and>
       generate_content E (api_key f) (system_instruction f) (user_prompt f) = Inr (Inr text) \<and>
       loads E text = Inr (PDict d) \<longrightarrow>
         snd (run E f) = None \<and> \<not> list_ex alert_banner (fst (run E f))))"
proof (intro conjI impI)
  assume "map_of d ''jockey_alert'' = None \<or> map_of d ''jockey_alert'' = Some (PStr ''null'') \<or>
    (\<exists>v. map_of d ''jockey_alert'' = Some v \<and> \<not> truthy v)"
  then show "jockey_alert_banner E d = ([], None)"
    by (auto simp: banner_cases dict_get_def)
  then have none: "alert_shown E d = []"
    by (simp add: alert_shown_def)
  assume run: "submitted f \<and> setup_ok E f \<and>
       generate_content E (api_key f) (system_instruction f) (user_prompt f) = Inr (Inr text) \<and>
       loads E text = Inr (PDict d)"
  obtain evs r where disp: "display E (meeting f) (PDict d) = (evs, r)"
    by (cases "display E (meeting f) (PDict d)")
  have quiet: "\<not> list_ex alert_banner evs"
    using disp none display_no_banner by blast
  from run have r: "run E f =
      (up_to_call f @ evs @ (case r of None \<Rightarrow> [] | Some e \<Rightarrow> error_report e), None)"
    using run_decoded [OF _ _ _ _ disp] by blast
  show "snd (run E f) = None"
    using r by simp
  show "\<not> list_ex alert_banner (fst (run E f))"
    using r quiet by (simp split: option.splits)
qed simp_all

theorem falsy_alert_no_banner_witness:
  "map_of (alert_data (PStr [])) ''jockey_alert'' = Some (PStr []) \<and> \<not> truthy (PStr []) \<and>
   jockey_alert_banner
     (answering empty_alert_text (decode_only empty_alert_text (PDict (alert_data (PStr [])))))
     (alert_data (PStr [])) = ([], None) \<and>
   submitted newbury \<and>
   loads (answering empty_alert_text (decode_only empty_alert_text (PDict (alert_data (PStr [])))))
     empty_alert_text = Inr (PDict (alert_data (PStr []))) \<and>
   snd (run
     (answering empty_alert_text (decode_only empty_alert_text (PDict (alert_data (PStr [])))))
     newbury) = None \<and>
   \<not> list_ex alert_banner (fst (run
     (answering empty_alert_text (decode_only empty_alert_text (PDict (alert_data (PStr [])))))
     newbury))"
proof -
  let ?d = "alert_data (PStr [])"
  let ?E = "answering empty_alert_text (decode_only empty_alert_text (PDict ?d))"
  have v: "map_of ?d ''jockey_alert'' = Some (PStr [])"
    by (simp add: alert_data_def)
  have sub: "submitted newbury"
    by (simp add: submitted_def newbury_def api_key_def)
  have ok: "setup_ok ?E newbury"
    by (simp add: setup_ok_def answering_def)
  have gen: "generate_content ?E (api_key newbury) (system_instruction newbury)
      (user_prompt newbury) = Inr (Inr empty_alert_text)"
    by (simp add: answering_def)
  have dec: "loads ?E empty_alert_text = Inr (PDict ?d)"
    by (simp add: answering_def decode_only_def)
  from falsy_alert_no_banner [of ?d ?E newbury empty_alert_text]
  show ?thesis using v sub ok gen dec by auto
qed

text \<open>
  Claim C7, as stated, fails on the code. A response with every required key whose
  \<open>jockey_alert\<close> is the empty string, a non-null string other than "null", is
  rendered without any banner: the first thing shown after the status is the caption.
\<close>

theorem alert_banner_first_counterexample:
  "map_of (alert_data (PStr [])) ''jockey_alert'' = Some (PStr []) \<and> [] \<noteq> ''null'' \<and>
   run (answering empty_alert_text (decode_only empty_alert_text (PDict (alert_data (PStr [])))))
     newbury =
    (up_to_call newbury @
     [analysis_complete,
      StCaption ([CHR 0xF0, CHR 0x9F, CHR 0x93, CHR 0x8D] @ '' Newbury '' @
                 [CHR 0xE2, CHR 0x80, CHR 0xA2] @ '' Soft, 2m4f''),
      StColumns 2,
      StMetric selection_label (PStr ''Storm King'') (PStr ''4/1'') ''normal'',
      StMetric danger_label (PStr ''Bay Breeze'') (PStr ''7/2'') ''inverse'',
      StDivider, StSubheader logic_heading, StInfo (PStr ''Soft ground favors stamina.'')],
     None)"
proof -
  let ?d = "alert_data (PStr [])"
  let ?E = "answering empty_alert_text (decode_only empty_alert_text (PDict ?d))"
  have sub: "submitted newbury"
    by (simp add: submitted_def newbury_def api_key_def)
  have ok: "setup_ok ?E newbury"
    by (simp add: setup_ok_def answering_def)
  have gen: "generate_content ?E (api_key newbury) (system_instruction newbury)
      (user_prompt newbury) = Inr (Inr empty_alert_text)"
    by (simp add: answering_def)
  have dec: "loads ?E empty_alert_text = Inr (PDict ?d)"
    by (simp add: answering_def decode_only_def)
  have none: "alert_shown ?E ?d = []"
    by (rule alert_shown_falsy) (simp add: alert_data_def dict_get_def)
  have disp: "display ?E (meeting newbury) (PDict ?d) =
    (analysis_complete # alert_shown ?E ?d @
     [caption_of ?E (meeting newbury) (PStr ''Soft, 2m4f''), StColumns 2,
      StMetric selection_label (PStr ''Storm King'') (PStr ''4/1'') ''normal'',
      StMetric danger_label (PStr ''Bay Breeze'') (PStr ''7/2'') ''inverse'',
      StDivider, StSubheader logic_heading, StInfo (PStr ''Soft ground favors stamina.'')],
     None)"
    by (rule display_complete) (simp_all add: alert_data_def)
  have m: "meeting newbury = ''Newbury''"
    by (simp add: newbury_def)
  have "map_of ?d ''jockey_alert'' = Some (PStr [])"
    by (simp add: alert_data_def)
  then show ?thesis
    using run_decoded [OF sub ok gen dec disp] none m by (simp add: caption_of_def)
qed

text \<open>
  Claim C7, amended. For a submitted run whose response decodes to an object with a
  \<open>jockey_alert\<close> that is a string, not empty and not "null", the banner carrying
  that string is the first success output: the run begins with the events up to the
  call, the status set to complete and then the banner, and nothing before the
  banner is success output. Whatever else is rendered (the caption, the cards, the
  logic panel) comes after it; when the response is successful, that is, every
  required key is there and the card values are accepted, the run is exactly the
  banner followed by the caption, the two cards and the logic panel.
\<close>

theorem alert_banner_first:
  assumes "submitted f" and "setup_ok E f"
    and "generate_content E (api_key f) (system_instruction f) (user_prompt f) = Inr (Inr text)"
    and "loads E text = Inr (PDict d)"
    and "map_of d ''jockey_alert'' = Some (PStr a)" and "a \<noteq> []" and "a \<noteq> ''null''"
  shows "prefix
      (up_to_call f @
       [analysis_complete,
        StError ([CHR 0xF0, CHR 0x9F, CHR 0x9A, CHR 0xA8] @ '' **JOCKEY ALERT:** '' @ a)])
      (fst (run E f)) \<and>
    \<not> list_ex success_output (up_to_call f @ [analysis_complete]) \<and>
    success_output
      (StError ([CHR 0xF0, CHR 0x9F, CHR 0x9A, CHR 0xA8] @ '' **JOCKEY ALERT:** '' @ a)) \<and>
    (map_of d ''conditions'' = Some c \<and>
     map_of d ''selection'' = Some s \<and> map_of d ''selection_odds'' = Some so \<and>
     metric_accepts s \<and> metric_accepts so \<and>
     map_of d ''danger'' = Some g \<and> map_of d ''danger_odds'' = Some go \<and>
     metric_accepts g \<and> metric_accepts go \<and> map_of d ''logic'' = Some l \<longrightarrow>
       run E f =
         (up_to_call f @
          [analysis_complete,
           StError ([CHR 0xF0, CHR 0x9F, CHR 0x9A, CHR 0xA8] @ '' **JOCKEY ALERT:** '' @ a),
           caption_of E (meeting f) c, StColumns 2,
           StMetric selection_label s so ''normal'', StMetric danger_label g go ''inverse'',
           StDivider, StSubheader logic_heading, StInfo l], None))"
proof (intro conjI impI)
  have shown: "alert_shown E d = [banner_of a]"
    using assms(5-7) by (rule alert_shown_string)
  obtain evs r where disp: "display E (meeting f) (PDict d) = (evs, r)"
    by (cases "display E (meeting f) (PDict d)")
  have "prefix [analysis_complete, banner_of a] evs"
    using display_prefix [of E d "meeting f"] disp shown by simp
  moreover have "fst (run E f) =
      up_to_call f @ evs @ (case r of None \<Rightarrow> [] | Some e \<Rightarrow> error_report e)"
    using run_decoded [OF assms(1-4) disp] by simp
  ultimately show "prefix
      (up_to_call f @
       [analysis_complete,
        StError ([CHR 0xF0, CHR 0x9F, CHR 0x9A, CHR 0xA8] @ '' **JOCKEY ALERT:** '' @ a)])
      (fst (run E f))"
    by (simp add: prefix_prefix banner_of_def)
  show "\<not> list_ex success_output (up_to_call f @ [analysis_complete])"
    by (simp add: analysis_complete_def)
  show "success_output
      (StError ([CHR 0xF0, CHR 0x9F, CHR 0x9A, CHR 0xA8] @ '' **JOCKEY ALERT:** '' @ a))"
    by (simp add: alert_prefix_def)
  assume "map_of d ''conditions'' = Some c \<and>
     map_of d ''selection'' = Some s \<and> map_of d ''selection_odds'' = Some so \<and>
     metric_accepts s \<and> metric_accepts so \<and>
     map_of d ''danger'' = Some g \<and> map_of d ''danger_odds'' = Some go \<and>
     metric_accepts g \<and> metric_accepts go \<and> map_of d ''logic'' = Some l"
  then have "display E (meeting f) (PDict d) =
      (analysis_complete # alert_shown E d @
       [caption_of E (meeting f) c, StColumns 2,
        StMetric selection_label s so ''normal'', StMetric danger_label g go ''inverse'',
        StDivider, StSubheader logic_heading, StInfo l], None)"
    by (intro display_complete) simp_all
  from run_decoded [OF assms(1-4) this] shown
  show "run E f =
      (up_to_call f @
       [analysis_complete,
        StError ([CHR 0xF0, CHR 0x9F, CHR 0x9A, CHR 0xA8] @ '' **JOCKEY ALERT:** '' @ a),
        caption_of E (meeting f) c, StColumns 2,
        StMetric selection_label s so ''normal'', StMetric danger_label g go ''inverse'',
        StDivider, StSubheader logic_heading, StInfo l], None)"
    by (simp add: banner_of_def)
qed

theorem alert_banner_first_witness:
  "submitted newbury \<and>
   map_of (alert_data (PStr ''J. Smith booked'')) ''jockey_alert'' =
     Some (PStr ''J. Smith booked'') \<and>
   ''J. Smith booked'' \<noteq> [] \<and> ''J. Smith booked'' \<noteq> ''null'' \<and>
   run (answering smith_text (decode_only smith_text (PDict (alert_data (PStr ''J. Smith booked'')))))
     newbury =
    (up_to_call newbury @
     [analysis_complete,
      StError ([CHR 0xF0, CHR 0x9F, CHR 0x9A, CHR 0xA8] @ '' **JOCKEY ALERT:** J. Smith booked''),
      StCaption ([CHR 0xF0, CHR 0x9F, CHR 0x93, CHR 0x8D] @ '' Newbury '' @
                 [CHR 0xE2, CHR 0x80, CHR 0xA2] @ '' Soft, 2m4f''),
      StColumns 2,
      StMetric selection_label (PStr ''Storm King'') (PStr ''4/1'') ''normal'',
      StMetric danger_label (PStr ''Bay Breeze'') (PStr ''7/2'') ''inverse'',
      StDivider, StSubheader logic_heading, StInfo (PStr ''Soft ground favors stamina.'')],
     None)"
proof -
  let ?d = "alert_data (PStr ''J. Smith booked'')"
  let ?E = "answering smith_text (decode_only smith_text (PDict ?d))"
  have sub: "submitted newbury"
    by (simp add: submitted_def newbury_def api_key_def)
  have ok: "setup_ok ?E newbury"
    by (simp add: setup_ok_def answering_def)
  have gen: "generate_content ?E (api_key newbury) (system_instruction newbury)
      (user_prompt newbury) = Inr (Inr smith_text)"
    by (simp add: answering_def)
  have dec: "loads ?E smith_text = Inr (PDict ?d)"
    by (simp add: answering_def decode_only_def)
  have keys: "map_of ?d ''conditions'' = Some (PStr ''Soft, 2m4f'')"
    "map_of ?d ''selection'' = Some (PStr ''Storm King'')"
    "map_of ?d ''selection_odds'' = Some (PStr ''4/1'')"
    "map_of ?d ''danger'' = Some (PStr ''Bay Breeze'')"
    "map_of ?d ''danger_odds'' = Some (PStr ''7/2'')"
    "map_of ?d ''logic'' = Some (PStr ''Soft ground favors stamina.'')"
    by (simp_all add: alert_data_def)
  have alert: "map_of ?d ''jockey_alert'' = Some (PStr ''J. Smith booked'')"
    by (simp add: alert_data_def)
  have a: "''J. Smith booked'' \<noteq> []" "''J. Smith booked'' \<noteq> ''null''"
    by simp_all
  have m: "meeting newbury = ''Newbury''"
    by (simp add: newbury_def)
  from alert_banner_first [OF sub ok gen dec alert a,
      where c = "PStr ''Soft, 2m4f''" and s = "PStr ''Storm King''" and so = "PStr ''4/1''"
        and g = "PStr ''Bay Breeze''" and go = "PStr ''7/2''"
        and l = "PStr ''Soft ground favors stamina.''"]
  show ?thesis using sub alert keys m by (simp add: caption_of_def)
qed

end
